theory Spec2Isabelle
  imports Complex_Main "HOL-Library.Sublist"
begin

section \<open>Data model\<close>

text \<open>
  The pipeline has three programs: \<^verbatim>\<open>clean_and_analyze.py\<close> (cleaning in pandas, then
  DuckDB views for sessions and attribution), \<^verbatim>\<open>business_analysis.py\<close> (a second set of
  DuckDB views over the cleaned table) and \<^verbatim>\<open>monitoring.py\<close> (the monitor).

  Numbers are Python and DuckDB doubles in the source; they are modelled as exact
  rationals, so rounding and infinite or NaN payload values are outside the model. Only
  the results of the monitor's two divisions can be infinite or NaN.
  Timestamps are DuckDB timestamps: a count of microseconds since the epoch, NULL when
  pandas could not parse the text. SQL NULL, pandas NaN/NaT and Python \<^verbatim>\<open>None\<close> in a
  column are \<open>None\<close>.
\<close>

subsection \<open>Python values held in a parsed payload\<close>

datatype pyval =
    PNone
  | PBool bool
  | PNum rat
  | PStr string
  | PList "pyval list"
  | PDict "(string \<times> pyval) list"

text \<open>
  Library functions whose code is not part of the repository are parameters of the
  model: \<open>json_loads\<close> is \<^verbatim>\<open>json.loads\<close> (\<open>None\<close> when it raises), \<open>float_of_str\<close> is
  Python's \<^verbatim>\<open>float\<close> on a string (\<open>None\<close> when it raises), \<open>numeric_of_str\<close> is what
  \<^verbatim>\<open>pd.to_numeric(errors="coerce")\<close> makes of a string cell, \<open>to_datetime\<close> is
  \<^verbatim>\<open>pd.to_datetime(utc=True, errors="coerce")\<close> on the whole timestamp column (one result per
  cell, in microseconds; pandas may read one cell in the light of the others), and
  \<open>url_query\<close> is \<^verbatim>\<open>parse_qs(urlparse(url).query)\<close> (\<open>None\<close> when it raises).
\<close>

record libs =
  json_loads :: "string \<Rightarrow> pyval option"
  float_of_str :: "string \<Rightarrow> rat option"
  numeric_of_str :: "string \<Rightarrow> rat option"
  to_datetime :: "string option list \<Rightarrow> int option list"
  url_query :: "string \<Rightarrow> (string \<times> string list) list option"

subsection \<open>Rows of the events data frame\<close>

text \<open>
  \<open>row\<close> is a row of the pandas frame when duplicates are dropped (step 2.3): the
  canonical columns read from the CSV files, every cell a string or missing, with
  \<open>event_name\<close> already stripped and remapped by step 2.1. \<open>event\<close> adds the columns
  computed by steps 2.4 to 2.8 that the views read; it is a row of
  \<^verbatim>\<open>analytics_events_enriched\<close>.
\<close>

record row =
  source_file :: string
  client_id :: "string option"
  page_url :: "string option"
  referrer :: "string option"
  timestamp :: "string option"
  event_name :: "string option"
  event_data :: "string option"
  user_agent :: "string option"

record event = row +
  timestamp_utc :: "int option"
  event_data_parsed :: pyval
  utm_source :: "string option"
  utm_medium :: "string option"
  utm_campaign :: "string option"
  price :: "rat option"
  total :: "rat option"
  quantity :: "rat option"

section \<open>Cleaning stage (\<^verbatim>\<open>clean_and_analyze.py\<close>, step 2)\<close>

subsection \<open>Helpers\<close>

definition py_isspace :: "char \<Rightarrow> bool" where
  "py_isspace c \<longleftrightarrow>
     c = CHR '' '' \<or> c = CHR 0x09 \<or> c = CHR 0x0A \<or> c = CHR 0x0B \<or> c = CHR 0x0C \<or>
     c = CHR 0x0D \<or> c = CHR 0x1C \<or> c = CHR 0x1D \<or> c = CHR 0x1E \<or> c = CHR 0x1F"

definition strip :: "string \<Rightarrow> string" where
  "strip s = rev (dropWhile py_isspace (rev (dropWhile py_isspace s)))"

definition str_cell :: "string option \<Rightarrow> string" where
  \<comment> \<open>\<^verbatim>\<open>str(s)\<close> on a cell: a missing cell is the float NaN, whose text is \<^verbatim>\<open>nan\<close>.\<close>
  "str_cell c = (case c of None \<Rightarrow> ''nan'' | Some s \<Rightarrow> s)"

definition repair_quotes :: "string \<Rightarrow> string" where
  \<comment> \<open>\<^verbatim>\<open>s.replace("'", '"')\<close>\<close>
  "repair_quotes s = map (\<lambda>c. if c = CHR 0x27 then CHR 0x22 else c) s"

definition safe_json_parse :: "libs \<Rightarrow> string option \<Rightarrow> pyval" where
  "safe_json_parse L c =
     (let s = strip (str_cell c) in
      if s = [] then PNone
      else (case json_loads L s of
              Some v \<Rightarrow> v
            | None \<Rightarrow> (case json_loads L (repair_quotes s) of
                         Some v \<Rightarrow> v
                       | None \<Rightarrow> PNone)))"

definition py_float :: "libs \<Rightarrow> pyval \<Rightarrow> rat option" where
  \<comment> \<open>\<^verbatim>\<open>float(v)\<close>; \<open>None\<close> when it raises.\<close>
  "py_float L v =
     (case v of
        PNum x \<Rightarrow> Some x
      | PBool b \<Rightarrow> Some (if b then 1 else 0)
      | PStr s \<Rightarrow> float_of_str L s
      | _ \<Rightarrow> None)"

definition opt_num :: "rat option \<Rightarrow> pyval" where
  "opt_num r = (case r of None \<Rightarrow> PNone | Some x \<Rightarrow> PNum x)"

fun price_keys :: "libs \<Rightarrow> (string \<times> pyval) list \<Rightarrow> string list \<Rightarrow> pyval" where
  "price_keys L d [] = PNone"
| "price_keys L d (k # ks) =
     (case map_of d k of
        Some v \<Rightarrow> opt_num (py_float L v)
      | None \<Rightarrow> price_keys L d ks)"

definition extract_price :: "libs \<Rightarrow> pyval \<Rightarrow> pyval" where
  "extract_price L ed =
     (case ed of
        PDict d \<Rightarrow> price_keys L d [''price'', ''total'', ''revenue'', ''amount'', ''value'']
      | _ \<Rightarrow> PNone)"

definition item_values :: "pyval list \<Rightarrow> string \<Rightarrow> pyval list" where
  "item_values items key =
     concat (map (\<lambda>item. case item of
                            PDict i \<Rightarrow> (case map_of i key of Some v \<Rightarrow> [v] | None \<Rightarrow> [])
                          | _ \<Rightarrow> []) items)"

definition extract_from_items :: "libs \<Rightarrow> pyval \<Rightarrow> string \<Rightarrow> pyval" where
  "extract_from_items L ed key =
     (case ed of
        PDict d \<Rightarrow>
          (case map_of d ''items'' of
             Some (PList items) \<Rightarrow>
               (case item_values items key of
                  [] \<Rightarrow> PNone
                | v # vs \<Rightarrow>
                    if key = ''quantity'' \<or> key = ''price'' \<or> key = ''total'' then
                      (case those (map (py_float L) (filter (\<lambda>x. x \<noteq> PNone) (v # vs))) of
                         Some xs \<Rightarrow> PNum (sum_list xs)
                       | None \<Rightarrow> PNone)
                    else v)
           | _ \<Rightarrow> PNone)
      | _ \<Rightarrow> PNone)"

definition get_key :: "pyval \<Rightarrow> string \<Rightarrow> pyval" where
  "get_key ed key =
     (case ed of
        PDict d \<Rightarrow> (case map_of d key of Some v \<Rightarrow> v | None \<Rightarrow> PNone)
      | _ \<Rightarrow> PNone)"

fun truthy :: "pyval \<Rightarrow> bool" where
  "truthy PNone = False"
| "truthy (PBool b) = b"
| "truthy (PNum x) = (x \<noteq> 0)"
| "truthy (PStr s) = (s \<noteq> [])"
| "truthy (PList xs) = (xs \<noteq> [])"
| "truthy (PDict d) = (d \<noteq> [])"

definition py_or :: "pyval \<Rightarrow> pyval \<Rightarrow> pyval" where
  \<comment> \<open>Python's \<^verbatim>\<open>a or b\<close>\<close>
  "py_or a b = (if truthy a then a else b)"

definition to_numeric :: "libs \<Rightarrow> pyval \<Rightarrow> rat option" where
  \<comment> \<open>\<^verbatim>\<open>pd.to_numeric(..., errors="coerce")\<close> on one cell; NaN is \<open>None\<close>.\<close>
  "to_numeric L v =
     (case v of
        PNum x \<Rightarrow> Some x
      | PBool b \<Rightarrow> Some (if b then 1 else 0)
      | PStr s \<Rightarrow> numeric_of_str L s
      | _ \<Rightarrow> None)"

definition nan_mult :: "rat option \<Rightarrow> rat option \<Rightarrow> rat option" where
  \<comment> \<open>The product of two float columns: NaN when either side is NaN.\<close>
  "nan_mult a b = (case (a, b) of (Some x, Some y) \<Rightarrow> Some (x * y) | _ \<Rightarrow> None)"

definition first_value :: "(string \<times> string list) list \<Rightarrow> string \<Rightarrow> string option option" where
  \<comment> \<open>\<^verbatim>\<open>qs.get(k, [None])[0]\<close>; the outer \<open>None\<close> is the IndexError of an empty list.\<close>
  "first_value qs k =
     (case map_of qs k of
        None \<Rightarrow> Some None
      | Some [] \<Rightarrow> None
      | Some (v # _) \<Rightarrow> Some (Some v))"

definition extract_utms_from_url ::
    "libs \<Rightarrow> string \<Rightarrow> string option \<times> string option \<times> string option" where
  "extract_utms_from_url L url =
     (case url_query L url of
        None \<Rightarrow> (None, None, None)
      | Some qs \<Rightarrow>
          (case (first_value qs ''utm_source'', first_value qs ''utm_medium'',
                 first_value qs ''utm_campaign'') of
             (Some s, Some m, Some c) \<Rightarrow> (s, m, c)
           | _ \<Rightarrow> (None, None, None)))"

subsection \<open>Step 2.3: dropping duplicates\<close>

type_synonym dup_key =
  "string \<times> string option \<times> string option \<times> string option \<times> string option \<times>
   string option \<times> string option"

definition DUP_SUBSET :: "'a row_scheme \<Rightarrow> dup_key" where
  \<comment> \<open>source_file, timestamp, event_name, event_data, page_url, referrer, client_id\<close>
  "DUP_SUBSET r =
     (source_file r, timestamp r, event_name r, event_data r, page_url r, referrer r,
      client_id r)"

fun drop_seen :: "dup_key list \<Rightarrow> 'a row_scheme list \<Rightarrow> 'a row_scheme list" where
  "drop_seen seen [] = []"
| "drop_seen seen (r # rs) =
     (if DUP_SUBSET r \<in> set seen then drop_seen seen rs
      else r # drop_seen (DUP_SUBSET r # seen) rs)"

definition drop_duplicates :: "'a row_scheme list \<Rightarrow> 'a row_scheme list" where
  \<comment> \<open>\<^verbatim>\<open>events.drop_duplicates(subset=dup_subset_existing, keep="first")\<close>; all seven
      columns of the subset exist in the frame, and missing cells compare equal.\<close>
  "drop_duplicates rs = drop_seen [] rs"

definition dropped_dupes :: "'a row_scheme list \<Rightarrow> nat" where
  "dropped_dupes rs = length rs - length (drop_duplicates rs)"

definition spec_key :: "'a row_scheme \<Rightarrow> string \<times> string option \<times> string option \<times> string option" where
  \<comment> \<open>The key as the specification words it: source file, raw timestamp text, event
      name, raw payload text.\<close>
  "spec_key r = (source_file r, timestamp r, event_name r, event_data r)"

subsection \<open>Steps 2.4 to 2.8: derived columns\<close>

definition unit_price :: "libs \<Rightarrow> pyval \<Rightarrow> pyval" where
  "unit_price L ed = py_or (extract_price L ed) (extract_from_items L ed ''price'')"

definition quantity_raw :: "libs \<Rightarrow> pyval \<Rightarrow> pyval" where
  "quantity_raw L ed = py_or (get_key ed ''quantity'') (extract_from_items L ed ''quantity'')"

definition clean :: "libs \<Rightarrow> int option \<Rightarrow> row \<Rightarrow> event" where
  \<comment> \<open>The derived columns of one row; \<open>ts\<close> is the row's cell of the parsed timestamp
      column.\<close>
  "clean L ts r =
     (let ed = safe_json_parse L (event_data r);
          utms = extract_utms_from_url L (case page_url r of None \<Rightarrow> [] | Some u \<Rightarrow> u)
      in \<lparr> source_file = source_file r,
           client_id = client_id r,
           page_url = page_url r,
           referrer = referrer r,
           timestamp = timestamp r,
           event_name = event_name r,
           event_data = event_data r,
           user_agent = user_agent r,
           timestamp_utc = ts,
           event_data_parsed = ed,
           utm_source = fst utms,
           utm_medium = fst (snd utms),
           utm_campaign = snd (snd utms),
           price = to_numeric L (extract_price L ed),
           total = nan_mult (to_numeric L (unit_price L ed)) (to_numeric L (quantity_raw L ed)),
           quantity = to_numeric L (quantity_raw L ed) \<rparr>)"

definition cleaned_events :: "libs \<Rightarrow> row list \<Rightarrow> event list" where
  \<comment> \<open>Steps 2.3 to 2.8 on the frame: duplicates dropped, the timestamp column parsed as a
      whole (step 2.4), then the other derived columns row by row.\<close>
  "cleaned_events L rs =
     (let kept = drop_duplicates rs
      in map (\<lambda>(ts, r). clean L ts r) (zip (to_datetime L (map timestamp kept)) kept))"

section \<open>DuckDB views (\<^verbatim>\<open>clean_and_analyze.py\<close> step 3, \<^verbatim>\<open>business_analysis.py\<close>)\<close>

subsection \<open>SQL helpers\<close>

definition coalesce :: "'a option \<Rightarrow> 'a \<Rightarrow> 'a" where
  "coalesce x d = (case x of Some v \<Rightarrow> v | None \<Rightarrow> d)"

definition non_null :: "'a option list \<Rightarrow> 'a list" where
  "non_null xs = concat (map (\<lambda>x. case x of None \<Rightarrow> [] | Some v \<Rightarrow> [v]) xs)"

definition sql_sum :: "rat option list \<Rightarrow> rat option" where
  \<comment> \<open>\<^verbatim>\<open>SUM\<close> skips NULLs and is NULL when nothing is left.\<close>
  "sql_sum xs = (case non_null xs of [] \<Rightarrow> None | v # vs \<Rightarrow> Some (sum_list (v # vs)))"

definition sql_avg :: "rat list \<Rightarrow> rat option" where
  "sql_avg xs = (if xs = [] then None else Some (sum_list xs / of_nat (length xs)))"

definition sql_max :: "int option list \<Rightarrow> int option" where
  "sql_max xs = (case non_null xs of [] \<Rightarrow> None | v # vs \<Rightarrow> Some (fold max vs v))"

definition is_purchase :: "'a event_scheme \<Rightarrow> bool" where
  \<comment> \<open>\<^verbatim>\<open>WHERE event_name = 'purchase'\<close>\<close>
  "is_purchase e \<longleftrightarrow> event_name e = Some ''purchase''"

definition order_by_timestamp :: "event list \<Rightarrow> event list" where
  \<comment> \<open>\<^verbatim>\<open>ORDER BY timestamp_utc\<close>: ascending, NULLs last. Rows with equal timestamps come
      out in some order; the model keeps their table order.\<close>
  "order_by_timestamp es =
     sort_key (\<lambda>e. the (timestamp_utc e)) (filter (\<lambda>e. timestamp_utc e \<noteq> None) es)
     @ filter (\<lambda>e. timestamp_utc e = None) es"

subsection \<open>Sessionization: \<^verbatim>\<open>analytics_sessions\<close> and \<^verbatim>\<open>sessions_simple\<close>\<close>

definition SESSION_GAP_SECONDS :: int where
  "SESSION_GAP_SECONDS = 1800"

definition epoch_seconds :: "int \<Rightarrow> int" where
  "epoch_seconds t = t div 1000000"

definition datediff_second :: "int option \<Rightarrow> int option \<Rightarrow> int option" where
  \<comment> \<open>DuckDB's \<^verbatim>\<open>datediff('second', a, b)\<close>: the number of second boundaries between
      the two timestamps, NULL when either is NULL.\<close>
  "datediff_second a b =
     (case (a, b) of
        (Some x, Some y) \<Rightarrow> Some (epoch_seconds y - epoch_seconds x)
      | _ \<Rightarrow> None)"

definition with_lag :: "event list \<Rightarrow> (event \<times> int option) list" where
  \<comment> \<open>\<^verbatim>\<open>lag(timestamp_utc) OVER (PARTITION BY client_id ORDER BY timestamp_utc)\<close>, on one
      ordered partition.\<close>
  "with_lag es = zip es (None # map timestamp_utc es)"

definition new_session_flag :: "int option \<Rightarrow> int option \<Rightarrow> nat" where
  "new_session_flag prev_ts ts =
     (if prev_ts = None then 1
      else (case datediff_second prev_ts ts of
              Some d \<Rightarrow> if d > SESSION_GAP_SECONDS then 1 else 0
            | None \<Rightarrow> 0))"

definition flagged :: "event list \<Rightarrow> nat list" where
  "flagged es = map (\<lambda>(e, prev_ts). new_session_flag prev_ts (timestamp_utc e)) (with_lag es)"

fun running_sum :: "nat \<Rightarrow> nat list \<Rightarrow> nat list" where
  "running_sum acc [] = []"
| "running_sum acc (x # xs) = (acc + x) # running_sum (acc + x) xs"

definition partition_by_client :: "string \<Rightarrow> event list \<Rightarrow> event list" where
  \<comment> \<open>The rows of one client (\<^verbatim>\<open>WHERE client_id IS NOT NULL\<close>, \<^verbatim>\<open>PARTITION BY client_id\<close>),
      in window order.\<close>
  "partition_by_client c es = order_by_timestamp (filter (\<lambda>e. client_id e = Some c) es)"

definition session_seq :: "string \<Rightarrow> event list \<Rightarrow> nat list" where
  \<comment> \<open>\<^verbatim>\<open>sum(new_session_flag) OVER (... ROWS BETWEEN UNBOUNDED PRECEDING AND CURRENT ROW)\<close>:
      the session number of each row of the client's partition.\<close>
  "session_seq c es = running_sum 0 (flagged (partition_by_client c es))"

definition sequenced :: "string \<Rightarrow> event list \<Rightarrow> (event \<times> nat) list" where
  "sequenced c es = zip (partition_by_client c es) (session_seq c es)"

subsection \<open>Attribution: \<^verbatim>\<open>analytics_purchase_attribution\<close> and \<^verbatim>\<open>purchase_attribution\<close>\<close>

record attributed =
  purchase :: event
  revenue :: rat
  first_utm_source :: "string option"
  first_utm_medium :: "string option"
  first_utm_campaign :: "string option"
  last_utm_source :: "string option"
  last_utm_medium :: "string option"
  last_utm_campaign :: "string option"

definition seven_days :: int where
  \<comment> \<open>\<^verbatim>\<open>INTERVAL '7 days'\<close> in microseconds (days of 24 hours, as in UTC).\<close>
  "seven_days = 7 * 86400 * 1000000"

definition touch_candidate :: "event \<Rightarrow> event \<Rightarrow> bool" where
  \<comment> \<open>The \<^verbatim>\<open>WHERE\<close> clause of the correlated subqueries; a row passes only when the
      condition is true, so a NULL client id or timestamp on either side fails it.\<close>
  "touch_candidate p t =
     (case (client_id t, client_id p, timestamp_utc t, timestamp_utc p) of
        (Some tc, Some pc, Some tt, Some pt) \<Rightarrow>
          tc = pc \<and> pt - seven_days \<le> tt \<and> tt \<le> pt \<and> utm_source t \<noteq> None
      | _ \<Rightarrow> False)"

definition first_touch :: "event list \<Rightarrow> event \<Rightarrow> event option" where
  \<comment> \<open>\<^verbatim>\<open>ORDER BY t.timestamp_utc ASC LIMIT 1\<close>\<close>
  "first_touch es p =
     (case sort_key (\<lambda>t. the (timestamp_utc t)) (filter (touch_candidate p) es) of
        [] \<Rightarrow> None
      | t # _ \<Rightarrow> Some t)"

definition last_touch :: "event list \<Rightarrow> event \<Rightarrow> event option" where
  \<comment> \<open>\<^verbatim>\<open>ORDER BY t.timestamp_utc DESC LIMIT 1\<close>\<close>
  "last_touch es p =
     (case sort_key (\<lambda>t. - the (timestamp_utc t)) (filter (touch_candidate p) es) of
        [] \<Rightarrow> None
      | t # _ \<Rightarrow> Some t)"

definition touch_column :: "(event \<Rightarrow> string option) \<Rightarrow> event option \<Rightarrow> string option" where
  "touch_column col t = (case t of None \<Rightarrow> None | Some e \<Rightarrow> col e)"

definition attribute :: "(event \<Rightarrow> rat) \<Rightarrow> event list \<Rightarrow> event \<Rightarrow> attributed" where
  "attribute revenue_of es p =
     \<lparr> purchase = p,
       revenue = revenue_of p,
       first_utm_source = touch_column utm_source (first_touch es p),
       first_utm_medium = touch_column utm_medium (first_touch es p),
       first_utm_campaign = touch_column utm_campaign (first_touch es p),
       last_utm_source = touch_column utm_source (last_touch es p),
       last_utm_medium = touch_column utm_medium (last_touch es p),
       last_utm_campaign = touch_column utm_campaign (last_touch es p) \<rparr>"

definition analytics_purchase_attribution :: "event list \<Rightarrow> attributed list" where
  \<comment> \<open>\<^verbatim>\<open>clean_and_analyze.py\<close>: \<^verbatim>\<open>COALESCE(total, 0.0) AS revenue\<close>\<close>
  "analytics_purchase_attribution es =
     map (attribute (\<lambda>p. coalesce (total p) 0) es) (filter is_purchase es)"

definition purchase_attribution :: "event list \<Rightarrow> attributed list" where
  \<comment> \<open>\<^verbatim>\<open>business_analysis.py\<close>: \<^verbatim>\<open>COALESCE(price, total, 0.0) AS revenue\<close>\<close>
  "purchase_attribution es =
     map (attribute (\<lambda>p. coalesce (price p) (coalesce (total p) 0)) es) (filter is_purchase es)"

definition raw_revenue :: "event list \<Rightarrow> rat" where
  \<comment> \<open>\<^verbatim>\<open>SELECT COALESCE(SUM(COALESCE(total, 0.0)),0) ... WHERE event_name='purchase'\<close>\<close>
  "raw_revenue es =
     coalesce (sql_sum (map (\<lambda>e. Some (coalesce (total e) 0)) (filter is_purchase es))) 0"

definition attrib_revenue :: "event list \<Rightarrow> rat" where
  \<comment> \<open>\<^verbatim>\<open>SELECT COALESCE(SUM(revenue),0) FROM analytics_purchase_attribution\<close>\<close>
  "attrib_revenue es =
     coalesce (sql_sum (map (\<lambda>a. Some (revenue a)) (analytics_purchase_attribution es))) 0"

subsection \<open>Device classification: \<^verbatim>\<open>device_type\<close>\<close>

definition lower_char :: "char \<Rightarrow> char" where
  "lower_char c =
     (case map_of (zip ''ABCDEFGHIJKLMNOPQRSTUVWXYZ'' ''abcdefghijklmnopqrstuvwxyz'') c of
        Some d \<Rightarrow> d
      | None \<Rightarrow> c)"

definition lower :: "string \<Rightarrow> string" where
  \<comment> \<open>SQL \<^verbatim>\<open>lower\<close> on the ASCII letters; other bytes are unchanged.\<close>
  "lower s = map lower_char s"

definition like_contains :: "string \<Rightarrow> string \<Rightarrow> bool" where
  \<comment> \<open>\<^verbatim>\<open>s LIKE '%pat%'\<close> for a pattern without wildcards of its own\<close>
  "like_contains s pat \<longleftrightarrow> sublist pat s"

definition device_type :: "string option \<Rightarrow> string" where
  \<comment> \<open>A NULL user agent makes every \<^verbatim>\<open>WHEN\<close> condition NULL, so the \<^verbatim>\<open>ELSE\<close> branch is
      taken.\<close>
  "device_type ua =
     (case ua of
        None \<Rightarrow> ''unknown''
      | Some u \<Rightarrow>
          let l = lower u in
          if like_contains l ''ipad'' then ''tablet''
          else if like_contains l ''iphone'' then ''mobile''
          else if like_contains l ''android'' \<and> like_contains l ''mobile'' then ''mobile''
          else if like_contains l ''android'' then ''tablet''
          else if like_contains l ''mobile'' then ''mobile''
          else if like_contains l ''windows'' \<or> like_contains l ''macintosh''
                  \<or> like_contains l ''x11'' then ''desktop''
          else ''unknown'')"

section \<open>Monitor (\<^verbatim>\<open>monitoring.py\<close>)\<close>

text \<open>
  An alert is a pair of a severity text and a message. The messages are f-strings that
  format the measured numbers; the model keeps which message it is and the numbers.
\<close>

text \<open>
  The two divisions of the monitor are divisions of doubles: a zero divisor gives an
  infinity or NaN, not NULL. Their results are the only numbers of the model that can be
  infinite or NaN.
\<close>

datatype double = Finite rat | Pos_inf | Neg_inf | Nan

definition sql_div :: "rat option \<Rightarrow> rat option \<Rightarrow> double option" where
  \<comment> \<open>\<^verbatim>\<open>a / b\<close> on doubles: NULL when an operand is NULL.\<close>
  "sql_div a b =
     (case (a, b) of
        (Some x, Some y) \<Rightarrow>
          Some (if y \<noteq> 0 then Finite (x / y)
                else if x > 0 then Pos_inf else if x < 0 then Neg_inf else Nan)
      | _ \<Rightarrow> None)"

fun double_truthy :: "double \<Rightarrow> bool" where
  \<comment> \<open>Python's truth value of a float: only zero is false.\<close>
  "double_truthy (Finite x) = (x \<noteq> 0)"
| "double_truthy Pos_inf = True"
| "double_truthy Neg_inf = True"
| "double_truthy Nan = True"

fun double_gt :: "double \<Rightarrow> rat \<Rightarrow> bool" where
  \<comment> \<open>\<^verbatim>\<open>d > threshold\<close>; every comparison with NaN is false.\<close>
  "double_gt (Finite x) r = (x > r)"
| "double_gt Pos_inf r = True"
| "double_gt Neg_inf r = False"
| "double_gt Nan r = False"

datatype message =
    No_events_ingested_today
  | No_purchases_recorded_today
  | High_null_client_id_rate rat
  | Duplicate_rate_high double
  | JSON_parse_error_rate_high rat
  | Revenue_drop_detected rat rat
  | Direct_traffic_unusually_high double

datatype error = ValueError | TypeError

record report =
  date :: int
  alerts :: "(string \<times> message) list"
  status :: string

definition BASELINE_DAYS :: nat where "BASELINE_DAYS = 7"
definition MAX_NULL_CLIENT_RATE :: rat where "MAX_NULL_CLIENT_RATE = 20 / 100"
definition MAX_DUP_RATE :: rat where "MAX_DUP_RATE = 1 / 1000"
definition MAX_JSON_ERROR_RATE :: rat where "MAX_JSON_ERROR_RATE = 1 / 100"
definition MAX_DIRECT_SHARE :: rat where "MAX_DIRECT_SHARE = 80 / 100"
definition MAX_REV_DROP :: rat where "MAX_REV_DROP = 40 / 100"

definition sql_date :: "int \<Rightarrow> int" where
  \<comment> \<open>\<^verbatim>\<open>DATE(timestamp_utc)\<close> as a day number (UTC).\<close>
  "sql_date t = t div 86400000000"

definition event_date :: "event \<Rightarrow> int option" where
  "event_date e = map_option sql_date (timestamp_utc e)"

definition data_today :: "event list \<Rightarrow> int option" where
  \<comment> \<open>\<^verbatim>\<open>SELECT MAX(DATE(timestamp_utc)) FROM events_enriched\<close>\<close>
  "data_today es = sql_max (map event_date es)"

definition row_count :: "event list \<Rightarrow> nat" where
  "row_count es = length es"

definition purchase_count :: "event list \<Rightarrow> nat" where
  "purchase_count es = length (filter is_purchase es)"

definition pipeline_health :: "event list \<Rightarrow> (string \<times> message) list" where
  "pipeline_health es =
     (if row_count es = 0 then [(''CRITICAL'', No_events_ingested_today)] else [])
     @ (if purchase_count es = 0 then [(''CRITICAL'', No_purchases_recorded_today)] else [])"

definition null_client_rate :: "event list \<Rightarrow> rat option" where
  "null_client_rate es = sql_avg (map (\<lambda>e. if client_id e = None then 1 else 0) es)"

definition dup_group :: "event \<Rightarrow> string \<times> int option \<times> string option \<times> string option" where
  \<comment> \<open>\<^verbatim>\<open>GROUP BY source_file, timestamp_utc, event_name, event_data\<close>\<close>
  "dup_group e = (source_file e, timestamp_utc e, event_name e, event_data e)"

definition dup_rate :: "event list \<Rightarrow> double option" where
  \<comment> \<open>\<^verbatim>\<open>COUNT(*) FILTER (WHERE cnt > 1) * 1.0 / COUNT(*)\<close> over the groups: the share of
      groups with more than one row.\<close>
  "dup_rate es =
     (let keys = map dup_group es; groups = remdups keys
      in sql_div (Some (of_nat (length (filter (\<lambda>k. count_list keys k > 1) groups))))
                 (Some (of_nat (length groups))))"

definition json_error_rate :: "event list \<Rightarrow> rat option" where
  "json_error_rate es =
     sql_avg (map (\<lambda>e. if event_data e \<noteq> None \<and> event_data_parsed e = PNone then 1 else 0) es)"

definition order_desc :: "int option list \<Rightarrow> int option list" where
  \<comment> \<open>\<^verbatim>\<open>ORDER BY 1 DESC\<close> on the distinct dates: descending, the NULL date last.\<close>
  "order_desc ds =
     map Some (rev (sort (remdups (non_null ds)))) @ (if None \<in> set ds then [None] else [])"

definition daily_rev :: "event list \<Rightarrow> (int option \<times> rat option) list" where
  \<comment> \<open>\<^verbatim>\<open>SELECT DATE(timestamp_utc) AS d, SUM(total) AS revenue ... GROUP BY 1 ORDER BY 1 DESC\<close>\<close>
  "daily_rev es =
     (let ps = filter is_purchase es
      in map (\<lambda>d. (d, sql_sum (map total (filter (\<lambda>e. event_date e = d) ps))))
             (order_desc (map event_date ps)))"

definition nan_mean :: "rat option list \<Rightarrow> rat option" where
  \<comment> \<open>pandas \<^verbatim>\<open>mean()\<close>: NaN cells are skipped; NaN when nothing is left.\<close>
  "nan_mean xs = sql_avg (non_null xs)"

definition drop_check :: "rat option \<Rightarrow> rat option \<Rightarrow> (string \<times> message) list" where
  \<comment> \<open>A NaN on either side makes the comparisons false.\<close>
  "drop_check latest baseline =
     (case (latest, baseline) of
        (Some l, Some b) \<Rightarrow>
          if b > 0 \<and> (b - l) / b > MAX_REV_DROP
          then [(''CRITICAL'', Revenue_drop_detected l b)] else []
      | _ \<Rightarrow> [])"

definition revenue_drop :: "event list \<Rightarrow> (string \<times> message) list" where
  "revenue_drop es =
     (let dr = daily_rev es in
      if length dr > BASELINE_DAYS
      then drop_check (snd (dr ! 0)) (nan_mean (map snd (take BASELINE_DAYS (drop 1 dr))))
      else [])"

definition direct_share :: "attributed list \<Rightarrow> double option" where
  "direct_share ps =
     sql_div
       (sql_sum (map (\<lambda>a. Some (revenue a))
                  (filter (\<lambda>a. coalesce (last_utm_source a) ''direct'' = ''direct'') ps)))
       (sql_sum (map (\<lambda>a. Some (revenue a)) ps))"

definition direct_alert :: "attributed list \<Rightarrow> (string \<times> message) list" where
  \<comment> \<open>\<^verbatim>\<open>if direct_share and direct_share > MAX_DIRECT_SHARE\<close>\<close>
  "direct_alert ps =
     (case direct_share ps of
        Some s \<Rightarrow> if double_truthy s \<and> double_gt s MAX_DIRECT_SHARE
                  then [(''WARN'', Direct_traffic_unusually_high s)] else []
      | None \<Rightarrow> [])"

definition data_integrity :: "rat \<Rightarrow> double \<Rightarrow> rat \<Rightarrow> (string \<times> message) list" where
  "data_integrity ncr dr jer =
     (if ncr > MAX_NULL_CLIENT_RATE then [(''WARN'', High_null_client_id_rate ncr)] else [])
     @ (if double_gt dr MAX_DUP_RATE then [(''WARN'', Duplicate_rate_high dr)] else [])
     @ (if jer > MAX_JSON_ERROR_RATE then [(''WARN'', JSON_parse_error_rate_high jer)] else [])"

definition make_report :: "int \<Rightarrow> (string \<times> message) list \<Rightarrow> report" where
  "make_report today as =
     \<lparr> date = today,
       alerts = as,
       status = (if list_ex (\<lambda>a. fst a = ''CRITICAL'') as then ''FAIL'' else ''PASS'') \<rparr>"

definition monitoring :: "event list \<Rightarrow> attributed list \<Rightarrow> error + report" where
  \<comment> \<open>The whole script: \<open>Inl\<close> is the exception that ends it, \<open>Inr\<close> the report it writes.
      Comparing a NULL rate with a threshold raises \<^verbatim>\<open>TypeError\<close>.\<close>
  "monitoring events_enriched purchases =
     (case data_today events_enriched of
        None \<Rightarrow> Inl ValueError
      | Some today \<Rightarrow>
          (case null_client_rate events_enriched of
             None \<Rightarrow> Inl TypeError
           | Some ncr \<Rightarrow>
               (case dup_rate events_enriched of
                  None \<Rightarrow> Inl TypeError
                | Some dr \<Rightarrow>
                    (case json_error_rate events_enriched of
                       None \<Rightarrow> Inl TypeError
                     | Some jer \<Rightarrow>
                         Inr (make_report today
                               (pipeline_health events_enriched
                                @ data_integrity ncr dr jer
                                @ revenue_drop events_enriched
                                @ direct_alert purchases))))))"

section \<open>Example inputs\<close>

text \<open>
  The library functions at the few texts the examples use: three payloads, fourteen
  timestamps and five page URLs. Every other text fails to parse. The timestamp column
  is parsed as pandas 2 does it: the format is taken from the first cell that is not
  missing, here with or without a fraction of a second, and a cell in the other format
  becomes NaT.
\<close>

definition example_timestamps :: "string \<Rightarrow> int option" where
  "example_timestamps = map_of
     [(''2024-12-24 23:59:59'', 1735084799000000),
      (''2024-12-25 00:00:00'', 1735084800000000),
      (''2024-12-26 00:00:00'', 1735171200000000),
      (''2024-12-27 00:00:00'', 1735257600000000),
      (''2024-12-28 00:00:00'', 1735344000000000),
      (''2024-12-29 00:00:00'', 1735430400000000),
      (''2024-12-30 00:00:00'', 1735516800000000),
      (''2024-12-31 00:00:00'', 1735603200000000),
      (''2025-01-01 00:00:00'', 1735689600000000),
      (''2025-01-01 00:30:00'', 1735691400000000),
      (''2025-01-01 01:00:01'', 1735693201000000),
      (''2025-01-01 02:00:00'', 1735696800000000),
      (''2025-01-01 00:00:00.000'', 1735689600000000),
      (''2025-01-01 00:30:00.001'', 1735691400001000)]"

definition example_libs :: libs where
  \<open>example_libs =
     \<lparr> json_loads = map_of
         [(''{"price": -5, "quantity": 2}'',
             PDict [(''price'', PNum (- 5)), (''quantity'', PNum 2)]),
          (''{"price": 10, "quantity": 2}'',
             PDict [(''price'', PNum 10), (''quantity'', PNum 2)]),
          (''{"price": 100, "quantity": 1}'',
             PDict [(''price'', PNum 100), (''quantity'', PNum 1)])],
       float_of_str = (\<lambda>s. None),
       numeric_of_str = (\<lambda>s. None),
       to_datetime = (\<lambda>column.
         case non_null column of
           [] \<Rightarrow> map (\<lambda>cell. None) column
         | first # _ \<Rightarrow>
             map (\<lambda>cell. case cell of
                          None \<Rightarrow> None
                        | Some s \<Rightarrow>
                            if (CHR ''.'' \<in> set s) = (CHR ''.'' \<in> set first)
                            then example_timestamps s else None)
                 column),
       url_query = map_of
         [([], []),
          (''https://shop.example/'', []),
          (''https://shop.example/?utm_source=ads'', [(''utm_source'', [''ads''])]),
          (''https://shop.example/?utm_source=email'', [(''utm_source'', [''email''])]),
          (''https://shop.example/?utm_source=newsletter'',
             [(''utm_source'', [''newsletter''])])] \<rparr>\<close>

definition example_row ::
    "string option \<Rightarrow> string \<Rightarrow> string \<Rightarrow> string option \<Rightarrow> string \<Rightarrow> row" where
  "example_row cid ts name data url =
     \<lparr> source_file = ''events_20250101.csv'',
       client_id = cid,
       page_url = Some url,
       referrer = None,
       timestamp = Some ts,
       event_name = Some name,
       event_data = data,
       user_agent = None \<rparr>"

definition order_row :: "string \<Rightarrow> row" where
  \<comment> \<open>A purchase of one item at 100 by client U1, landing from the ads campaign.\<close>
  \<open>order_row ts =
     example_row (Some ''U1'') ts ''purchase'' (Some ''{"price": 100, "quantity": 1}'')
       ''https://shop.example/?utm_source=ads''\<close>

definition two_item_row :: row where
  \<comment> \<open>A purchase of two items at 10 each.\<close>
  \<open>two_item_row =
     example_row (Some ''U1'') ''2025-01-01 00:30:00'' ''purchase''
       (Some ''{"price": 10, "quantity": 2}'') ''https://shop.example/''\<close>

definition refund_row :: row where
  \<comment> \<open>A purchase event whose payload carries a negative price.\<close>
  \<open>refund_row =
     example_row (Some ''U1'') ''2025-01-01 01:00:01'' ''purchase''
       (Some ''{"price": -5, "quantity": 2}'') ''https://shop.example/''\<close>

definition empty_payload_row :: row where
  "empty_payload_row =
     example_row (Some ''U1'') ''2025-01-01 02:00:00'' ''purchase'' None ''https://shop.example/''"

definition view_row :: "string option \<Rightarrow> string \<Rightarrow> string \<Rightarrow> row" where
  "view_row cid ts url = example_row cid ts ''page_viewed'' None url"

definition revenue_feed :: "event list" where
  "revenue_feed = cleaned_events example_libs
     [view_row (Some ''U1'') ''2025-01-01 00:00:00'' ''https://shop.example/'',
      two_item_row, empty_payload_row, order_row ''2025-01-01 00:00:00'']"








definition early_row :: row where
  \<comment> \<open>A touch one second before the window of \<open>window_purchase_row\<close> opens.\<close>
  "early_row =
     view_row (Some ''U1'') ''2024-12-24 23:59:59'' ''https://shop.example/?utm_source=newsletter''"

definition edge_row :: row where
  \<comment> \<open>A touch exactly seven days before \<open>window_purchase_row\<close>.\<close>
  "edge_row =
     view_row (Some ''U1'') ''2024-12-25 00:00:00'' ''https://shop.example/?utm_source=ads''"

definition middle_row :: row where
  \<comment> \<open>A touch one day before \<open>window_purchase_row\<close>.\<close>
  "middle_row =
     view_row (Some ''U1'') ''2024-12-31 00:00:00'' ''https://shop.example/?utm_source=email''"

definition window_purchase_row :: row where
  \<open>window_purchase_row =
     example_row (Some ''U1'') ''2025-01-01 00:00:00'' ''purchase''
       (Some ''{"price": 100, "quantity": 1}'') ''https://shop.example/''\<close>

definition window_feed :: "event list" where
  "window_feed = cleaned_events example_libs
     [early_row, edge_row, middle_row, window_purchase_row]"

definition outside_feed :: "event list" where
  \<comment> \<open>The purchase with the early touch alone.\<close>
  "outside_feed = cleaned_events example_libs [early_row, window_purchase_row]"

definition early_touch :: event where
  "early_touch = clean example_libs (Some 1735084799000000) early_row"

definition edge_touch :: event where
  "edge_touch = clean example_libs (Some 1735084800000000) edge_row"

definition middle_touch :: event where
  "middle_touch = clean example_libs (Some 1735603200000000) middle_row"

definition window_purchase :: event where
  "window_purchase = clean example_libs (Some 1735689600000000) window_purchase_row"

definition own_touch_purchase :: event where
  \<comment> \<open>A purchase whose own page URL carries the campaign source.\<close>
  "own_touch_purchase =
     clean example_libs (Some 1735689600000000) (order_row ''2025-01-01 00:00:00'')"

definition window_attributed :: attributed where
  "window_attributed = attribute (\<lambda>p. coalesce (total p) 0) window_feed window_purchase"

definition outside_attributed :: attributed where
  "outside_attributed = attribute (\<lambda>p. coalesce (total p) 0) outside_feed window_purchase"

definition own_attributed :: attributed where
  "own_attributed =
     attribute (\<lambda>p. coalesce (price p) (coalesce (total p) 0)) [own_touch_purchase]
       own_touch_purchase"

definition landing_row :: row where
  "landing_row = view_row (Some ''U1'') ''2025-01-01 00:00:00'' ''https://shop.example/''"

definition campaign_row :: row where
  \<comment> \<open>Equal to \<open>landing_row\<close> except for the page URL.\<close>
  "campaign_row =
     view_row (Some ''U1'') ''2025-01-01 00:00:00'' ''https://shop.example/?utm_source=ads''"

definition anonymous_feed :: "event list" where
  \<comment> \<open>One purchase without a client id.\<close>
  \<open>anonymous_feed = cleaned_events example_libs
     [example_row None ''2025-01-01 00:00:00'' ''purchase''
        (Some ''{"price": 100, "quantity": 1}'') ''https://shop.example/?utm_source=ads'']\<close>

definition browse_feed :: "event list" where
  \<comment> \<open>One page view and no purchase.\<close>
  "browse_feed = cleaned_events example_libs
     [view_row (Some ''U1'') ''2025-01-01 00:00:00'' ''https://shop.example/?utm_source=ads'']"

definition ua_ipad :: string where
  "ua_ipad = ''Mozilla/5.0 (iPad; CPU OS 16_6 like Mac OS X) AppleWebKit/605.1.15 Mobile/15E148 Safari/604.1''"

definition ua_android_tablet :: string where
  "ua_android_tablet = ''Mozilla/5.0 (Linux; Android 13; SM-X200) AppleWebKit/537.36 Chrome/120.0.0.0 Safari/537.36''"

definition ua_android_phone :: string where
  "ua_android_phone = ''Mozilla/5.0 (Linux; Android 13; Pixel 7) AppleWebKit/537.36 Chrome/120.0.0.0 Mobile Safari/537.36''"

definition ua_curl :: string where
  "ua_curl = ''curl/8.4.0''"

definition ua_android_iphone :: string where
  \<comment> \<open>Names Android and iPhone, and not Mobile.\<close>
  "ua_android_iphone = ''Mozilla/5.0 (Linux; Android 12; SM-T500) like iPhone''"

definition ua_ipad_android :: string where
  \<comment> \<open>Names iPad, Android and Mobile.\<close>
  "ua_ipad_android = ''Mozilla/5.0 (iPad; Android 12) Mobile''"

section \<open>Properties of the cleaning stage\<close>

subsection \<open>Duplicates\<close>

lemma drop_seen_snoc:
  "drop_seen seen (rs @ [r]) =
     (if DUP_SUBSET r \<in> set seen \<union> DUP_SUBSET ` set rs then drop_seen seen rs
      else drop_seen seen rs @ [r])"
  by (induction rs arbitrary: seen) auto

lemma drop_duplicates_snoc:
  "drop_duplicates (rs @ [r]) =
     (if DUP_SUBSET r \<in> DUP_SUBSET ` set rs then drop_duplicates rs
      else drop_duplicates rs @ [r])"
  by (simp add: drop_duplicates_def drop_seen_snoc)

text \<open>
  Claim C6 says that equality on the four columns source file, raw timestamp, event
  name and raw payload alone decides whether a row is a duplicate. The code compares
  seven columns: two rows that agree on those four and differ in the page URL are both
  kept.
\<close>

theorem dedup_four_column_key_counterexample:
  "spec_key landing_row = spec_key campaign_row
   \<and> drop_duplicates [landing_row, campaign_row] = [landing_row, campaign_row]"
  by code_simp

text \<open>
  Claim C6, amended: the row at position \<open>i\<close> is kept exactly when no earlier row is equal
  to it on the seven columns of \<open>DUP_SUBSET\<close> (source file, timestamp, event name, payload,
  page URL, referrer, client id); so the first row of each group of equal rows stays and
  the later ones go, in the original order.
\<close>

theorem dedup_seven_column_key:
  fixes rs :: "'a row_scheme list"
  shows "drop_duplicates rs =
     map (\<lambda>i. rs ! i)
         (filter (\<lambda>i. DUP_SUBSET (rs ! i) \<notin> DUP_SUBSET ` set (take i rs)) [0..<length rs])"
proof (induction rs rule: rev_induct)
  case Nil
  show ?case by (simp add: drop_duplicates_def)
next
  case (snoc r rs)
  have old: "filter (\<lambda>i. DUP_SUBSET ((rs @ [r]) ! i) \<notin> DUP_SUBSET ` set (take i (rs @ [r])))
               [0..<length rs]
             = filter (\<lambda>i. DUP_SUBSET (rs ! i) \<notin> DUP_SUBSET ` set (take i rs)) [0..<length rs]"
    by (rule filter_cong) (auto simp: nth_append)
  have mapold: "map (\<lambda>i. (rs @ [r]) ! i) (filter P [0..<length rs])
                = map (\<lambda>i. rs ! i) (filter P [0..<length rs])" for P
    by (rule map_cong) (auto simp: nth_append)
  have step: "map (\<lambda>i. (rs @ [r]) ! i) (filter P [0..<length (rs @ [r])])
              = map (\<lambda>i. rs ! i) (filter P [0..<length rs]) @ (if P (length rs) then [r] else [])"
    for P
    using mapold[of P] by simp
  have last: "DUP_SUBSET ((rs @ [r]) ! length rs) \<notin> DUP_SUBSET ` set (take (length rs) (rs @ [r]))
              \<longleftrightarrow> DUP_SUBSET r \<notin> DUP_SUBSET ` set rs"
    by simp
  show ?case
    by (subst step, subst old, subst last) (simp add: drop_duplicates_snoc snoc.IH)
qed

theorem dedup_seven_column_key_witness:
  "drop_duplicates [landing_row, campaign_row, landing_row] = [landing_row, campaign_row]"
proof -
  have "map (\<lambda>i. [landing_row, campaign_row, landing_row] ! i)
          (filter (\<lambda>i. DUP_SUBSET ([landing_row, campaign_row, landing_row] ! i)
                          \<notin> DUP_SUBSET ` set (take i [landing_row, campaign_row, landing_row]))
             [0..<length [landing_row, campaign_row, landing_row]])
        = [landing_row, campaign_row]"
    by code_simp
  with dedup_seven_column_key[of "[landing_row, campaign_row, landing_row]"]
  show ?thesis by simp
qed

subsection \<open>The derived total\<close>

text \<open>
  Claim C9 says that a non-null \<open>total\<close> is never negative. The cleaning stage multiplies
  the unit price by the quantity and checks neither: a payload with price -5 and
  quantity 2 gives the total -10.
\<close>

theorem total_negative_counterexample:
  "map total (cleaned_events example_libs [refund_row]) = [Some (- 10)] \<and> (- 10 :: rat) < 0"
proof -
  have "map total (cleaned_events example_libs [refund_row]) = [Some (- 10)]"
    by code_simp
  then show ?thesis by simp
qed

text \<open>
  Claim C9, amended: for every event the cleaning stage produces (a row with any cell
  \<open>ts\<close> of the parsed timestamp column), a non-null \<open>total\<close> is
  the product of the numeric unit price and the numeric quantity of the payload, and it
  is greater than or equal to zero whenever those two are.
\<close>

theorem total_is_product:
  assumes "total (clean L ts r) = Some t"
  shows "\<exists>u q. to_numeric L (unit_price L (event_data_parsed (clean L ts r))) = Some u
            \<and> quantity (clean L ts r) = Some q \<and> t = u * q
            \<and> (0 \<le> u \<and> 0 \<le> q \<longrightarrow> 0 \<le> t)"
  using assms by (auto simp: clean_def Let_def nan_mult_def split: option.splits)

theorem total_is_product_witness:
  "cleaned_events example_libs [two_item_row]
     = [clean example_libs (Some 1735691400000000) two_item_row]
   \<and> total (clean example_libs (Some 1735691400000000) two_item_row) = Some 20
   \<and> (\<exists>u q. to_numeric example_libs
               (unit_price example_libs
                  (event_data_parsed (clean example_libs (Some 1735691400000000) two_item_row)))
             = Some u
           \<and> quantity (clean example_libs (Some 1735691400000000) two_item_row) = Some q
           \<and> 20 = u * q
           \<and> (0 \<le> u \<and> 0 \<le> q \<longrightarrow> 0 \<le> (20 :: rat)))"
proof -
  have c: "cleaned_events example_libs [two_item_row]
             = [clean example_libs (Some 1735691400000000) two_item_row]"
    by code_simp
  have h: "total (clean example_libs (Some 1735691400000000) two_item_row) = Some 20"
    by code_simp
  from total_is_product[OF h] c h show ?thesis by blast
qed

section \<open>Properties of the views\<close>

subsection \<open>Revenue\<close>

lemma sql_sum_Some: "sql_sum (map Some xs) = (if xs = [] then None else Some (sum_list xs))"
proof -
  have "non_null (map Some xs) = xs"
    by (induction xs) (simp_all add: non_null_def)
  then show ?thesis
    by (cases xs) (simp_all add: sql_sum_def)
qed

lemma revenue_analytics:
  "map revenue (analytics_purchase_attribution es) =
     map (\<lambda>p. coalesce (total p) 0) (filter is_purchase es)"
  by (simp add: analytics_purchase_attribution_def attribute_def comp_def)

lemma purchase_analytics:
  "map purchase (analytics_purchase_attribution es) = filter is_purchase es"
  by (simp add: analytics_purchase_attribution_def attribute_def comp_def)

lemma revenue_analysis:
  "map revenue (purchase_attribution es) =
     map (\<lambda>p. coalesce (price p) (coalesce (total p) 0)) (filter is_purchase es)"
  by (simp add: purchase_attribution_def attribute_def comp_def)

lemma purchase_analysis:
  "map purchase (purchase_attribution es) = filter is_purchase es"
  by (simp add: purchase_attribution_def attribute_def comp_def)

text \<open>
  Claim C1 (revenue reconciliation): for every event table, the revenue summed over the
  rows of \<^verbatim>\<open>analytics_purchase_attribution\<close> equals the sum of \<open>total\<close>, NULL taken as 0,
  over the purchase events of the table. Both sums are the two queries of the
  validation step.
\<close>

theorem revenue_reconciliation: "attrib_revenue es = raw_revenue es"
proof -
  have "map (\<lambda>a. Some (revenue a)) (analytics_purchase_attribution es)
        = map (\<lambda>e. Some (coalesce (total e) 0)) (filter is_purchase es)"
    by (simp add: analytics_purchase_attribution_def attribute_def comp_def)
  then show ?thesis
    by (simp add: attrib_revenue_def raw_revenue_def)
qed

theorem revenue_reconciliation_witness:
  "attrib_revenue revenue_feed = raw_revenue revenue_feed \<and> raw_revenue revenue_feed = 120"
proof -
  have "raw_revenue revenue_feed = 120"
    by code_simp
  with revenue_reconciliation[of revenue_feed] show ?thesis by simp
qed

text \<open>
  Claim C5 says that the revenue of every attributed purchase is
  \<open>coalesce(price, total, 0)\<close>. That is the view of \<^verbatim>\<open>business_analysis.py\<close>; the view of
  \<^verbatim>\<open>clean_and_analyze.py\<close> takes \<open>coalesce(total, 0)\<close> and never reads the price. For a
  purchase of two items at 10 the price is 10 and the total 20, and the view records 20.
\<close>

theorem revenue_price_first_counterexample:
  "map price (cleaned_events example_libs [two_item_row]) = [Some 10]
   \<and> map total (cleaned_events example_libs [two_item_row]) = [Some 20]
   \<and> map revenue (analytics_purchase_attribution (cleaned_events example_libs [two_item_row]))
       = [20]
   \<and> map (\<lambda>p. coalesce (price p) (coalesce (total p) 0))
         (cleaned_events example_libs [two_item_row]) = [10]"
  by code_simp

text \<open>
  Claim C5, amended: both attribution views hold exactly the purchase events of the
  table, one row each and none left out; the revenue of a row is \<open>coalesce(total, 0)\<close> in
  the view of \<^verbatim>\<open>clean_and_analyze.py\<close> and \<open>coalesce(price, total, 0)\<close> in the view of
  \<^verbatim>\<open>business_analysis.py\<close>, so a purchase with neither value has revenue 0.
\<close>

theorem revenue_derivation:
  "map purchase (analytics_purchase_attribution es) = filter is_purchase es
   \<and> map revenue (analytics_purchase_attribution es)
       = map (\<lambda>p. coalesce (total p) 0) (filter is_purchase es)
   \<and> map purchase (purchase_attribution es) = filter is_purchase es
   \<and> map revenue (purchase_attribution es)
       = map (\<lambda>p. coalesce (price p) (coalesce (total p) 0)) (filter is_purchase es)"
  by (simp add: revenue_analytics purchase_analytics revenue_analysis purchase_analysis)

theorem revenue_derivation_witness:
  "map revenue (analytics_purchase_attribution revenue_feed) = [20, 0, 100]
   \<and> map revenue (purchase_attribution revenue_feed) = [10, 0, 100]
   \<and> length (filter is_purchase revenue_feed) = 3"
proof -
  have a: "map (\<lambda>p. coalesce (total p) 0) (filter is_purchase revenue_feed) = [20, 0, 100]"
    by code_simp
  have b: "map (\<lambda>p. coalesce (price p) (coalesce (total p) 0)) (filter is_purchase revenue_feed)
           = [10, 0, 100]"
    by code_simp
  have c: "length (filter is_purchase revenue_feed) = 3"
    by code_simp
  from revenue_derivation[of revenue_feed] a b c show ?thesis by simp
qed

subsection \<open>Sessions\<close>

lemma running_sum_length: "length (running_sum acc xs) = length xs"
  by (induction xs arbitrary: acc) simp_all










subsection \<open>Attribution window\<close>

lemma sort_key_head_least:
  fixes f :: "'a \<Rightarrow> int"
  assumes "sort_key f xs = y # ys" and "x \<in> set xs"
  shows "f y \<le> f x"
proof -
  have "sorted (map f (sort_key f xs))"
    by (rule sorted_sort_key)
  with assms(1) have le: "\<forall>z\<in>set ys. f y \<le> f z"
    by simp
  have "set (sort_key f xs) = set xs"
    by simp
  with assms have "x = y \<or> x \<in> set ys"
    by auto
  with le show ?thesis by auto
qed

lemma first_touch_is_candidate:
  assumes "first_touch es p = Some t"
  shows "t \<in> set es \<and> touch_candidate p t"
proof -
  from assms obtain ts where
    eq: "sort_key (\<lambda>t. the (timestamp_utc t)) (filter (touch_candidate p) es) = t # ts"
    by (auto simp: first_touch_def split: list.splits)
  have "set (filter (touch_candidate p) es) = set (t # ts)"
    using arg_cong[OF eq, of set] by simp
  then show ?thesis by auto
qed

lemma last_touch_is_candidate:
  assumes "last_touch es p = Some t"
  shows "t \<in> set es \<and> touch_candidate p t"
proof -
  from assms obtain ts where
    eq: "sort_key (\<lambda>t. - the (timestamp_utc t)) (filter (touch_candidate p) es) = t # ts"
    by (auto simp: last_touch_def split: list.splits)
  have "set (filter (touch_candidate p) es) = set (t # ts)"
    using arg_cong[OF eq, of set] by simp
  then show ?thesis by auto
qed

lemma first_touch_earliest:
  assumes "first_touch es p = Some f" and "t \<in> set es" and "touch_candidate p t"
  shows "the (timestamp_utc f) \<le> the (timestamp_utc t)"
proof -
  from assms(1) obtain ts where
    eq: "sort_key (\<lambda>t. the (timestamp_utc t)) (filter (touch_candidate p) es) = f # ts"
    by (auto simp: first_touch_def split: list.splits)
  from assms(2,3) have "t \<in> set (filter (touch_candidate p) es)"
    by simp
  from sort_key_head_least[OF eq this] show ?thesis .
qed

lemma last_touch_latest:
  assumes "last_touch es p = Some l" and "t \<in> set es" and "touch_candidate p t"
  shows "the (timestamp_utc t) \<le> the (timestamp_utc l)"
proof -
  from assms(1) obtain ts where
    eq: "sort_key (\<lambda>t. - the (timestamp_utc t)) (filter (touch_candidate p) es) = l # ts"
    by (auto simp: last_touch_def split: list.splits)
  from assms(2,3) have "t \<in> set (filter (touch_candidate p) es)"
    by simp
  from sort_key_head_least[OF eq this] show ?thesis by simp
qed

lemma candidate_gives_touch:
  assumes "t \<in> set es" and "touch_candidate p t"
  shows "\<exists>f l. first_touch es p = Some f \<and> last_touch es p = Some l"
proof -
  have "t \<in> set (filter (touch_candidate p) es)" using assms by simp
  then have "set (sort_key k (filter (touch_candidate p) es)) \<noteq> {}" for k :: "event \<Rightarrow> int"
    by auto
  then have "sort_key k (filter (touch_candidate p) es) \<noteq> []" for k :: "event \<Rightarrow> int"
    by (metis set_empty)
  then show ?thesis
    by (auto simp: first_touch_def last_touch_def split: list.splits)
qed

lemma candidate_window:
  assumes "touch_candidate p t" and "timestamp_utc p = Some pt"
  shows "\<exists>tt. timestamp_utc t = Some tt \<and> pt - 7 * 86400 * 1000000 \<le> tt \<and> tt \<le> pt"
  using assms by (auto simp: touch_candidate_def seven_days_def split: option.splits)

lemma no_candidate_no_touch:
  assumes "\<forall>t\<in>set es. \<not> touch_candidate p t"
  shows "first_touch es p = None \<and> last_touch es p = None"
proof -
  from assms have "filter (touch_candidate p) es = []"
    by (simp add: filter_empty_conv)
  then show ?thesis
    by (simp add: first_touch_def last_touch_def)
qed

lemma candidate_has_source:
  "touch_candidate p t \<Longrightarrow> utm_source t \<noteq> None"
  by (auto simp: touch_candidate_def split: option.splits)

lemma touch_window:
  assumes "client_id p = Some c" and "timestamp_utc p = Some pt"
    and "t \<in> set es" and "client_id t = Some c" and "timestamp_utc t = Some tt"
    and "utm_source t \<noteq> None"
  shows "(pt - 7 * 86400 * 1000000 \<le> tt \<and> tt \<le> pt \<longrightarrow>
           (\<exists>f l ft lt.
              first_touch es p = Some f \<and> last_touch es p = Some l
              \<and> timestamp_utc f = Some ft \<and> timestamp_utc l = Some lt
              \<and> pt - 7 * 86400 * 1000000 \<le> ft \<and> ft \<le> tt \<and> tt \<le> lt \<and> lt \<le> pt
              \<and> utm_source f \<noteq> None \<and> utm_source l \<noteq> None))
       \<and> (tt < pt - 7 * 86400 * 1000000 \<or> pt < tt \<longrightarrow>
            first_touch es p \<noteq> Some t \<and> last_touch es p \<noteq> Some t)"
proof -
  have cand: "touch_candidate p t \<longleftrightarrow> pt - 7 * 86400 * 1000000 \<le> tt \<and> tt \<le> pt"
    using assms by (simp add: touch_candidate_def seven_days_def)
  have inside: "\<exists>f l ft lt.
              first_touch es p = Some f \<and> last_touch es p = Some l
              \<and> timestamp_utc f = Some ft \<and> timestamp_utc l = Some lt
              \<and> pt - 7 * 86400 * 1000000 \<le> ft \<and> ft \<le> tt \<and> tt \<le> lt \<and> lt \<le> pt
              \<and> utm_source f \<noteq> None \<and> utm_source l \<noteq> None"
    if w: "pt - 7 * 86400 * 1000000 \<le> tt \<and> tt \<le> pt"
  proof -
    from w cand have c: "touch_candidate p t" by simp
    from candidate_gives_touch[OF assms(3) c] obtain f l where
      f: "first_touch es p = Some f" and l: "last_touch es p = Some l"
      by blast
    from first_touch_is_candidate[OF f] have fcand: "touch_candidate p f" by simp
    from candidate_window[OF fcand assms(2)] obtain ft where
      ft: "timestamp_utc f = Some ft" "pt - 7 * 86400 * 1000000 \<le> ft" "ft \<le> pt"
      by blast
    from last_touch_is_candidate[OF l] have lcand: "touch_candidate p l" by simp
    from candidate_window[OF lcand assms(2)] obtain lt where
      lt: "timestamp_utc l = Some lt" "pt - 7 * 86400 * 1000000 \<le> lt" "lt \<le> pt"
      by blast
    from first_touch_earliest[OF f assms(3) c] ft(1) assms(5) have early: "ft \<le> tt" by simp
    from last_touch_latest[OF l assms(3) c] lt(1) assms(5) have late: "tt \<le> lt" by simp
    from f l ft lt early late candidate_has_source[OF fcand] candidate_has_source[OF lcand]
    show ?thesis by blast
  qed
  have outside: "first_touch es p \<noteq> Some t \<and> last_touch es p \<noteq> Some t"
    if "tt < pt - 7 * 86400 * 1000000 \<or> pt < tt"
  proof -
    from that cand have "\<not> touch_candidate p t" by auto
    then show ?thesis
      using first_touch_is_candidate[of es p t] last_touch_is_candidate[of es p t] by blast
  qed
  from inside outside show ?thesis by blast
qed

lemma candidate_identity:
  "touch_candidate p t \<Longrightarrow> client_id p = Some c \<Longrightarrow> client_id t = Some c"
  by (auto simp: touch_candidate_def split: option.splits)

lemma chosen_touch_in_window:
  assumes "first_touch es p = Some f \<or> last_touch es p = Some f"
    and "client_id p = Some c" and "timestamp_utc p = Some pt"
  shows "f \<in> set es \<and> client_id f = Some c \<and> utm_source f \<noteq> None
       \<and> (\<exists>ft. timestamp_utc f = Some ft \<and> pt - 7 * 86400 * 1000000 \<le> ft \<and> ft \<le> pt)"
proof -
  from assms(1) have "f \<in> set es \<and> touch_candidate p f"
    using first_touch_is_candidate[of es p f] last_touch_is_candidate[of es p f] by blast
  then show ?thesis
    using candidate_identity[OF _ assms(2)] candidate_has_source candidate_window[OF _ assms(3)]
    by blast
qed

lemma view_columns:
  assumes "a \<in> set (analytics_purchase_attribution es) \<or> a \<in> set (purchase_attribution es)"
  shows "first_utm_source a = touch_column utm_source (first_touch es (purchase a))"
    and "last_utm_source a = touch_column utm_source (last_touch es (purchase a))"
  using assms
  by (auto simp: analytics_purchase_attribution_def purchase_attribution_def attribute_def)

text \<open>
  Claim C7 (attribution window boundary): take a row of either attribution view, with a
  purchase of known identity and timestamp. Whatever event is chosen as its first or
  last touch is an event of the table with the same identity, a non-null \<open>utm_source\<close>
  and a timestamp in the window from the purchase timestamp minus 7 days to the purchase
  timestamp, both ends included; the \<open>first_utm_source\<close> and \<open>last_utm_source\<close> columns
  of the row are the sources of the chosen touches, NULL when there is none.

  Now take a touch event of the table with that identity (an event with a non-null
  \<open>utm_source\<close>). If it lies in the window, then the purchase has a first and a last
  touch, the first no later and the last no earlier than this touch, and both columns
  are not NULL. If it is any earlier than the purchase timestamp minus 7 days, or later
  than the purchase, it is never the first nor the last touch. So a touch exactly 7 days
  before the purchase is a candidate, an earlier one is excluded, and an event at the
  purchase timestamp itself is a candidate. Seven days are 7 times 86400 seconds.
\<close>

theorem attribution_window_boundary:
  assumes "a \<in> set (analytics_purchase_attribution es) \<or> a \<in> set (purchase_attribution es)"
    and "client_id (purchase a) = Some c" and "timestamp_utc (purchase a) = Some pt"
    and "t \<in> set es" and "client_id t = Some c" and "timestamp_utc t = Some tt"
    and "utm_source t \<noteq> None"
  shows "(\<forall>f. first_touch es (purchase a) = Some f \<or> last_touch es (purchase a) = Some f \<longrightarrow>
            f \<in> set es \<and> client_id f = Some c \<and> utm_source f \<noteq> None
            \<and> (\<exists>ft. timestamp_utc f = Some ft
                     \<and> pt - 7 * 86400 * 1000000 \<le> ft \<and> ft \<le> pt))
       \<and> first_utm_source a = touch_column utm_source (first_touch es (purchase a))
       \<and> last_utm_source a = touch_column utm_source (last_touch es (purchase a))
       \<and> (pt - 7 * 86400 * 1000000 \<le> tt \<and> tt \<le> pt \<longrightarrow>
           (\<exists>f l ft lt.
              first_touch es (purchase a) = Some f \<and> last_touch es (purchase a) = Some l
              \<and> timestamp_utc f = Some ft \<and> timestamp_utc l = Some lt
              \<and> pt - 7 * 86400 * 1000000 \<le> ft \<and> ft \<le> tt \<and> tt \<le> lt \<and> lt \<le> pt
              \<and> first_utm_source a = utm_source f \<and> last_utm_source a = utm_source l
              \<and> first_utm_source a \<noteq> None \<and> last_utm_source a \<noteq> None))
       \<and> (tt < pt - 7 * 86400 * 1000000 \<or> pt < tt \<longrightarrow>
            first_touch es (purchase a) \<noteq> Some t \<and> last_touch es (purchase a) \<noteq> Some t)"
proof -
  note tw = touch_window[OF assms(2-7)]
  have chosen: "\<forall>f. first_touch es (purchase a) = Some f \<or> last_touch es (purchase a) = Some f \<longrightarrow>
            f \<in> set es \<and> client_id f = Some c \<and> utm_source f \<noteq> None
            \<and> (\<exists>ft. timestamp_utc f = Some ft
                     \<and> pt - 7 * 86400 * 1000000 \<le> ft \<and> ft \<le> pt)"
    using chosen_touch_in_window[OF _ assms(2,3)] by blast
  have cols: "first_utm_source a = touch_column utm_source (first_touch es (purchase a))"
    "last_utm_source a = touch_column utm_source (last_touch es (purchase a))"
    using view_columns[OF assms(1)] by simp_all
  have inside: "\<exists>f l ft lt.
              first_touch es (purchase a) = Some f \<and> last_touch es (purchase a) = Some l
              \<and> timestamp_utc f = Some ft \<and> timestamp_utc l = Some lt
              \<and> pt - 7 * 86400 * 1000000 \<le> ft \<and> ft \<le> tt \<and> tt \<le> lt \<and> lt \<le> pt
              \<and> first_utm_source a = utm_source f \<and> last_utm_source a = utm_source l
              \<and> first_utm_source a \<noteq> None \<and> last_utm_source a \<noteq> None"
    if w: "pt - 7 * 86400 * 1000000 \<le> tt \<and> tt \<le> pt"
  proof -
    from tw w obtain f l ft lt where
      f: "first_touch es (purchase a) = Some f" and l: "last_touch es (purchase a) = Some l"
      and ts: "timestamp_utc f = Some ft" "timestamp_utc l = Some lt"
      and bounds: "pt - 7 * 86400 * 1000000 \<le> ft" "ft \<le> tt" "tt \<le> lt" "lt \<le> pt"
      and src: "utm_source f \<noteq> None" "utm_source l \<noteq> None"
      by blast
    have fcol: "first_utm_source a = utm_source f"
      using cols(1) by (simp add: f touch_column_def)
    have lcol: "last_utm_source a = utm_source l"
      using cols(2) by (simp add: l touch_column_def)
    from src fcol lcol have nn: "first_utm_source a \<noteq> None" "last_utm_source a \<noteq> None"
      by simp_all
    from f l ts bounds fcol lcol nn show ?thesis by blast
  qed
  have outside: "first_touch es (purchase a) \<noteq> Some t \<and> last_touch es (purchase a) \<noteq> Some t"
    if "tt < pt - 7 * 86400 * 1000000 \<or> pt < tt"
    using tw that by blast
  show ?thesis
    by (intro conjI impI) (rule chosen, rule cols(1), rule cols(2), erule inside, erule outside[THEN conjunct1], erule outside[THEN conjunct2])
qed

theorem attribution_window_boundary_witness:
  "window_feed = [early_touch, edge_touch, middle_touch, window_purchase]
   \<and> outside_feed = [early_touch, window_purchase]
   \<and> purchase window_attributed = window_purchase
   \<and> purchase outside_attributed = window_purchase
   \<and> purchase own_attributed = own_touch_purchase
   \<and> timestamp_utc edge_touch = Some (1735689600000000 - 7 * 86400 * 1000000)
   \<and> first_touch window_feed window_purchase = Some edge_touch
   \<and> last_touch window_feed window_purchase = Some middle_touch
   \<and> first_touch window_feed window_purchase \<noteq> Some early_touch
   \<and> last_touch outside_feed window_purchase \<noteq> Some early_touch
   \<and> last_utm_source own_attributed \<noteq> None
   \<and> map first_utm_source (analytics_purchase_attribution window_feed) = [Some ''ads'']
   \<and> map last_utm_source (analytics_purchase_attribution window_feed) = [Some ''email'']
   \<and> map first_utm_source (analytics_purchase_attribution outside_feed) = [None]
   \<and> map last_utm_source (analytics_purchase_attribution outside_feed) = [None]
   \<and> map last_utm_source (purchase_attribution [own_touch_purchase]) = [Some ''ads'']"
proof -
  have wf: "window_feed = [early_touch, edge_touch, middle_touch, window_purchase]"
    by code_simp
  have off: "outside_feed = [early_touch, window_purchase]"
    by code_simp
  have ain: "window_attributed \<in> set (analytics_purchase_attribution window_feed)
             \<or> window_attributed \<in> set (purchase_attribution window_feed)"
    by code_simp
  have ain2: "outside_attributed \<in> set (analytics_purchase_attribution outside_feed)
              \<or> outside_attributed \<in> set (purchase_attribution outside_feed)"
    by code_simp
  have ain3: "own_attributed \<in> set (analytics_purchase_attribution [own_touch_purchase])
              \<or> own_attributed \<in> set (purchase_attribution [own_touch_purchase])"
    by code_simp
  have pa: "purchase window_attributed = window_purchase" by code_simp
  have pa2: "purchase outside_attributed = window_purchase" by code_simp
  have pa3: "purchase own_attributed = own_touch_purchase" by code_simp
  have pc: "client_id (purchase window_attributed) = Some ''U1''" by code_simp
  have pt: "timestamp_utc (purchase window_attributed) = Some 1735689600000000" by code_simp
  have pc2: "client_id (purchase outside_attributed) = Some ''U1''" by code_simp
  have pt2: "timestamp_utc (purchase outside_attributed) = Some 1735689600000000" by code_simp
  have pc3: "client_id (purchase own_attributed) = Some ''U1''" by code_simp
  have pt3: "timestamp_utc (purchase own_attributed) = Some 1735689600000000" by code_simp
  have ein: "edge_touch \<in> set window_feed" by (simp add: wf)
  have ec: "client_id edge_touch = Some ''U1''" by code_simp
  have et: "timestamp_utc edge_touch = Some 1735084800000000" by code_simp
  have eu: "utm_source edge_touch \<noteq> None" by code_simp
  have lin: "early_touch \<in> set window_feed" by (simp add: wf)
  have lin2: "early_touch \<in> set outside_feed" by (simp add: off)
  have lc: "client_id early_touch = Some ''U1''" by code_simp
  have lt: "timestamp_utc early_touch = Some 1735084799000000" by code_simp
  have lu: "utm_source early_touch \<noteq> None" by code_simp
  have oin: "own_touch_purchase \<in> set [own_touch_purchase]" by simp
  have oc: "client_id own_touch_purchase = Some ''U1''" by code_simp
  have ot: "timestamp_utc own_touch_purchase = Some 1735689600000000" by code_simp
  have ou: "utm_source own_touch_purchase \<noteq> None" by code_simp
  have edge_time: "timestamp_utc edge_touch = Some (1735689600000000 - 7 * 86400 * 1000000)"
    using et by simp
  have edge_in: "(1735689600000000::int) - 7 * 86400 * 1000000 \<le> 1735084800000000
                 \<and> (1735084800000000::int) \<le> 1735689600000000"
    by simp
  have early_out: "(1735084799000000::int) < 1735689600000000 - 7 * 86400 * 1000000
                   \<or> (1735689600000000::int) < 1735084799000000"
    by simp
  have own_in: "(1735689600000000::int) - 7 * 86400 * 1000000 \<le> 1735689600000000
                \<and> (1735689600000000::int) \<le> 1735689600000000"
    by simp
  from attribution_window_boundary[OF ain pc pt ein ec et eu] edge_in
  have "first_utm_source window_attributed \<noteq> None"
    by blast
  moreover have ft: "first_touch window_feed window_purchase = Some edge_touch"
    by code_simp
  moreover have lt2: "last_touch window_feed window_purchase = Some middle_touch"
    by code_simp
  moreover from attribution_window_boundary[OF ain pc pt lin lc lt lu] early_out
  have "first_touch window_feed (purchase window_attributed) \<noteq> Some early_touch"
    by blast
  then have early1: "first_touch window_feed window_purchase \<noteq> Some early_touch"
    using pa by simp
  moreover from attribution_window_boundary[OF ain2 pc2 pt2 lin2 lc lt lu] early_out
  have "last_touch outside_feed (purchase outside_attributed) \<noteq> Some early_touch"
    by blast
  then have early2: "last_touch outside_feed window_purchase \<noteq> Some early_touch"
    using pa2 by simp
  moreover from attribution_window_boundary[OF ain3 pc3 pt3 oin oc ot ou] own_in
  have own: "last_utm_source own_attributed \<noteq> None"
    by blast
  moreover have v1: "map first_utm_source (analytics_purchase_attribution window_feed)
                       = [Some ''ads'']"
    by code_simp
  moreover have v2: "map last_utm_source (analytics_purchase_attribution window_feed)
                       = [Some ''email'']"
    by code_simp
  moreover have v3: "map first_utm_source (analytics_purchase_attribution outside_feed) = [None]"
    by code_simp
  moreover have v4: "map last_utm_source (analytics_purchase_attribution outside_feed) = [None]"
    by code_simp
  moreover have v5: "map last_utm_source (purchase_attribution [own_touch_purchase])
                       = [Some ''ads'']"
    by code_simp
  ultimately show ?thesis
    using wf off pa pa2 pa3 edge_time by blast
qed

subsection \<open>Device classification\<close>

text \<open>
  Claim C10 says that a user agent naming Android and not Mobile is a tablet, and one
  naming both Android and Mobile is mobile. The rules for iPad and iPhone come first:
  a user agent naming Android and iPhone, and not Mobile, is classified mobile, and one
  naming iPad, Android and Mobile is classified tablet.
\<close>

theorem device_rule_order_counterexample:
  "like_contains (lower ua_android_iphone) ''android''
   \<and> \<not> like_contains (lower ua_android_iphone) ''mobile''
   \<and> device_type (Some ua_android_iphone) = ''mobile''
   \<and> like_contains (lower ua_ipad_android) ''android''
   \<and> like_contains (lower ua_ipad_android) ''mobile''
   \<and> device_type (Some ua_ipad_android) = ''tablet''"
  by code_simp

text \<open>
  Claim C10, amended: case-insensitively, a user agent containing \<open>ipad\<close> is a tablet
  whatever else it contains; one containing \<open>android\<close> and none of \<open>mobile\<close>, \<open>ipad\<close>,
  \<open>iphone\<close> is a tablet (not unknown); one containing both \<open>android\<close> and \<open>mobile\<close> and not
  \<open>ipad\<close> is mobile; and one matching no rule, as well as a missing user agent, is
  unknown.
\<close>

theorem device_type_rules:
  "(like_contains (lower u) ''ipad'' \<longrightarrow> device_type (Some u) = ''tablet'')
 \<and> (like_contains (lower u) ''android'' \<and> \<not> like_contains (lower u) ''mobile''
      \<and> \<not> like_contains (lower u) ''ipad'' \<and> \<not> like_contains (lower u) ''iphone''
      \<longrightarrow> device_type (Some u) = ''tablet'')
 \<and> (like_contains (lower u) ''android'' \<and> like_contains (lower u) ''mobile''
      \<and> \<not> like_contains (lower u) ''ipad''
      \<longrightarrow> device_type (Some u) = ''mobile'')
 \<and> (\<not> like_contains (lower u) ''ipad'' \<and> \<not> like_contains (lower u) ''iphone''
      \<and> \<not> like_contains (lower u) ''android'' \<and> \<not> like_contains (lower u) ''mobile''
      \<and> \<not> like_contains (lower u) ''windows'' \<and> \<not> like_contains (lower u) ''macintosh''
      \<and> \<not> like_contains (lower u) ''x11''
      \<longrightarrow> device_type (Some u) = ''unknown'')
 \<and> device_type None = ''unknown''"
  by (simp add: device_type_def Let_def)

theorem device_type_rules_witness:
  "device_type (Some ua_ipad) = ''tablet''
   \<and> device_type (Some ua_android_tablet) = ''tablet''
   \<and> device_type (Some ua_android_phone) = ''mobile''
   \<and> device_type (Some ua_curl) = ''unknown''"
proof -
  have ipad: "like_contains (lower ua_ipad) ''ipad''"
    by code_simp
  have tablet: "like_contains (lower ua_android_tablet) ''android''
                \<and> \<not> like_contains (lower ua_android_tablet) ''mobile''
                \<and> \<not> like_contains (lower ua_android_tablet) ''ipad''
                \<and> \<not> like_contains (lower ua_android_tablet) ''iphone''"
    by code_simp
  have phone: "like_contains (lower ua_android_phone) ''android''
               \<and> like_contains (lower ua_android_phone) ''mobile''
               \<and> \<not> like_contains (lower ua_android_phone) ''ipad''"
    by code_simp
  have curl: "\<not> like_contains (lower ua_curl) ''ipad'' \<and> \<not> like_contains (lower ua_curl) ''iphone''
              \<and> \<not> like_contains (lower ua_curl) ''android''
              \<and> \<not> like_contains (lower ua_curl) ''mobile''
              \<and> \<not> like_contains (lower ua_curl) ''windows''
              \<and> \<not> like_contains (lower ua_curl) ''macintosh''
              \<and> \<not> like_contains (lower ua_curl) ''x11''"
    by code_simp
  from device_type_rules[of ua_ipad] ipad
  have a: "device_type (Some ua_ipad) = ''tablet''" by blast
  from device_type_rules[of ua_android_tablet] tablet
  have b: "device_type (Some ua_android_tablet) = ''tablet''" by blast
  from device_type_rules[of ua_android_phone] phone
  have c: "device_type (Some ua_android_phone) = ''mobile''" by blast
  from device_type_rules[of ua_curl] curl
  have d: "device_type (Some ua_curl) = ''unknown''" by blast
  from a b c d show ?thesis by blast
qed

section \<open>Properties of the monitor\<close>

lemma monitoring_Inr:
  assumes "monitoring es ps = Inr r"
  obtains today ncr dr jer where "data_today es = Some today"
    and "r = make_report today
               (pipeline_health es @ data_integrity ncr dr jer @ revenue_drop es @ direct_alert ps)"
  using assms by (auto simp: monitoring_def split: option.splits)

lemma data_today_nonempty: "data_today es = Some d \<Longrightarrow> es \<noteq> []"
  by (auto simp: data_today_def sql_max_def non_null_def)

lemma pipeline_health_messages:
  "a \<in> set (pipeline_health es) \<Longrightarrow>
     (es = [] \<and> a = (''CRITICAL'', No_events_ingested_today))
     \<or> a = (''CRITICAL'', No_purchases_recorded_today)"
  by (auto simp: pipeline_health_def row_count_def split: if_splits)

lemma data_integrity_messages:
  "a \<in> set (data_integrity ncr dr jer) \<Longrightarrow>
     a = (''WARN'', High_null_client_id_rate ncr) \<or> a = (''WARN'', Duplicate_rate_high dr)
     \<or> a = (''WARN'', JSON_parse_error_rate_high jer)"
  by (auto simp: data_integrity_def split: if_splits)

lemma direct_alert_messages:
  "a \<in> set (direct_alert ps) \<Longrightarrow> \<exists>s. a = (''WARN'', Direct_traffic_unusually_high s)"
  by (auto simp: direct_alert_def split: option.splits if_splits)

lemma revenue_drop_messages:
  "a \<in> set (revenue_drop es) \<Longrightarrow> \<exists>l b. a = (''CRITICAL'', Revenue_drop_detected l b)"
  by (auto simp: revenue_drop_def drop_check_def Let_def split: option.splits if_splits)

subsection \<open>Overall status\<close>

text \<open>
  Claim C2 says that the status is WARN when there are alerts and none is CRITICAL, and
  PASS only when there are no alerts. The report has two statuses: for one purchase
  without a client id the monitor raises two WARN alerts and the status is PASS.
\<close>

theorem status_warn_counterexample:
  "monitoring anonymous_feed (analytics_purchase_attribution anonymous_feed)
   = Inr \<lparr> date = 20089,
           alerts = [(''WARN'', High_null_client_id_rate 1),
                     (''WARN'', Direct_traffic_unusually_high (Finite 1))],
           status = ''PASS'' \<rparr>"
  by code_simp

text \<open>
  Claim C2, amended: in every report the monitor writes, the status is FAIL if and only
  if at least one alert is CRITICAL, and PASS otherwise, also when there are WARN
  alerts; no report has the status WARN.
\<close>

theorem monitor_status:
  assumes "monitoring es ps = Inr r"
  shows "(status r = ''FAIL'' \<longleftrightarrow> (\<exists>a\<in>set (alerts r). fst a = ''CRITICAL''))
       \<and> (status r = ''PASS'' \<longleftrightarrow> \<not> (\<exists>a\<in>set (alerts r). fst a = ''CRITICAL''))
       \<and> status r \<noteq> ''WARN''"
proof -
  from assms obtain today as where r: "r = make_report today as"
    by (rule monitoring_Inr)
  show ?thesis
    by (simp add: r make_report_def list_ex_iff)
qed

theorem monitor_status_witness:
  "monitoring browse_feed (analytics_purchase_attribution browse_feed)
     = Inr \<lparr> date = 20089, alerts = [(''CRITICAL'', No_purchases_recorded_today)],
             status = ''FAIL'' \<rparr>
   \<and> (status \<lparr> date = 20089, alerts = [(''CRITICAL'', No_purchases_recorded_today)],
               status = ''FAIL'' \<rparr> = ''FAIL''
        \<longleftrightarrow> (\<exists>a\<in>set (alerts \<lparr> date = 20089,
                                  alerts = [(''CRITICAL'', No_purchases_recorded_today)],
                                  status = ''FAIL'' \<rparr>). fst a = ''CRITICAL''))"
proof -
  have h: "monitoring browse_feed (analytics_purchase_attribution browse_feed)
     = Inr \<lparr> date = 20089, alerts = [(''CRITICAL'', No_purchases_recorded_today)],
             status = ''FAIL'' \<rparr>"
    by code_simp
  from monitor_status[OF h] h show ?thesis by blast
qed

subsection \<open>Empty input\<close>

text \<open>
  Claim C3 (empty input): with no events the monitor should still write a report that
  holds a CRITICAL alert for the zero-row condition. The script asks for the latest
  event date first and raises \<^verbatim>\<open>ValueError\<close> when there is none, so with an empty table
  it ends before any alert is collected and writes no report.
\<close>

theorem monitoring_empty_input: "monitoring [] ps = Inl ValueError"
  by (simp add: monitoring_def data_today_def sql_max_def non_null_def)

text \<open>
  The zero-row alert of the pipeline health check is never part of a report: whenever
  the monitor gets as far as writing one, the table has rows.
\<close>

lemma zero_row_alert_unreachable:
  assumes "monitoring es ps = Inr r"
  shows "(''CRITICAL'', No_events_ingested_today) \<notin> set (alerts r)"
proof
  assume in_alerts: "(''CRITICAL'', No_events_ingested_today) \<in> set (alerts r)"
  from assms obtain today ncr dr jer where today: "data_today es = Some today"
    and r: "r = make_report today
               (pipeline_health es @ data_integrity ncr dr jer @ revenue_drop es @ direct_alert ps)"
    by (rule monitoring_Inr)
  from today have "es \<noteq> []" by (rule data_today_nonempty)
  moreover from in_alerts r have
    "(''CRITICAL'', No_events_ingested_today) \<in> set (pipeline_health es)
     \<or> (''CRITICAL'', No_events_ingested_today) \<in> set (data_integrity ncr dr jer)
     \<or> (''CRITICAL'', No_events_ingested_today) \<in> set (revenue_drop es)
     \<or> (''CRITICAL'', No_events_ingested_today) \<in> set (direct_alert ps)"
    by (auto simp: make_report_def)
  ultimately show False
    using pipeline_health_messages data_integrity_messages revenue_drop_messages
      direct_alert_messages
    by fastforce
qed

subsection \<open>Insufficient baseline\<close>








end
